theory Spec2Isabelle
  imports Main "HOL-Library.Word" "HOL-Library.Monad_Syntax"
begin

unbundle bit_operations_syntax

section \<open>Memory\<close>

text \<open>
  The allocator of \<^verbatim>\<open>mpool.c\<close> keeps all of its bookkeeping inside the bytes of
  the buffer it manages: a block header is an \<^verbatim>\<open>int\<close> followed by a union whose
  members (the payload and the list links) share the same bytes.  The model therefore
  has one flat byte-addressed memory.  An address is a natural number below \<open>2 ^ 64\<close>,
  pointer arithmetic wraps around at \<open>2 ^ 64\<close> (\<open>ptr_add\<close>), an \<^verbatim>\<open>int\<close> is a 32-bit
  word (signed comparisons are \<open>\<le>s\<close> and \<open><s\<close>), and values are stored little-endian.
  The code never checks an address against the bounds of the arena, and neither does
  the model.
\<close>

type_synonym addr = nat
type_synonym byte = "8 word"
type_synonym cint = "32 word"
type_synonym memory = "addr \<Rightarrow> byte"

definition ptr_add :: "addr \<Rightarrow> int \<Rightarrow> addr" where
  "ptr_add p i = nat ((int p + i) mod 18446744073709551616)"

fun le_bytes :: "nat \<Rightarrow> nat \<Rightarrow> byte list" where
  "le_bytes 0 n = []"
| "le_bytes (Suc k) n = word_of_nat n # le_bytes k (n div 256)"

fun le_val :: "byte list \<Rightarrow> nat" where
  "le_val [] = 0"
| "le_val (b # bs) = unat b + 256 * le_val bs"

fun load_bytes :: "memory \<Rightarrow> addr \<Rightarrow> nat \<Rightarrow> byte list" where
  "load_bytes m a 0 = []"
| "load_bytes m a (Suc k) = m a # load_bytes m (Suc a) k"

fun store_bytes :: "memory \<Rightarrow> addr \<Rightarrow> byte list \<Rightarrow> memory" where
  "store_bytes m a [] = m"
| "store_bytes m a (b # bs) = store_bytes (m(a := b)) (Suc a) bs"

definition load_int :: "memory \<Rightarrow> addr \<Rightarrow> cint" where
  "load_int m a = word_of_nat (le_val (load_bytes m a 4))"

definition store_int :: "memory \<Rightarrow> addr \<Rightarrow> cint \<Rightarrow> memory" where
  "store_int m a v = store_bytes m a (le_bytes 4 (unat v))"

definition load_ptr :: "memory \<Rightarrow> addr \<Rightarrow> addr" where
  "load_ptr m a = le_val (load_bytes m a 8)"

definition store_ptr :: "memory \<Rightarrow> addr \<Rightarrow> addr \<Rightarrow> memory" where
  "store_ptr m a v = store_bytes m a (le_bytes 8 v)"

text \<open>
  \<^verbatim>\<open>memset(p, c, n)\<close> and \<^verbatim>\<open>memcpy(dst, src, n)\<close>, with \<open>n\<close> of type
  \<^verbatim>\<open>size_t\<close>; \<open>size_t_of\<close> is the conversion of an \<^verbatim>\<open>int\<close> argument.  The bytes
  \<open>memcpy\<close> reads are those of the memory before the call (C leaves overlapping
  regions undefined).
\<close>

definition size_t_of :: "cint \<Rightarrow> nat" where
  "size_t_of v = nat (sint v mod 18446744073709551616)"

definition memset :: "memory \<Rightarrow> addr \<Rightarrow> byte \<Rightarrow> nat \<Rightarrow> memory" where
  "memset m p c n = (\<lambda>a. if p \<le> a \<and> a < p + n then c else m a)"

definition memcpy :: "memory \<Rightarrow> addr \<Rightarrow> addr \<Rightarrow> nat \<Rightarrow> memory" where
  "memcpy m dst src n = (\<lambda>a. if dst \<le> a \<and> a < dst + n then m (src + (a - dst)) else m a)"

section \<open>Layout of \<^verbatim>\<open>block_t\<close>\<close>

text \<open>
  The enum of \<^verbatim>\<open>mpool.c\<close> on an LP64 target: \<^verbatim>\<open>sizeof(int) = 4\<close>, pointers have
  8 bytes, the union of \<^verbatim>\<open>block_t\<close> is aligned to 8, so it starts at offset 8 and
  \<^verbatim>\<open>sizeof(block_t) = 24\<close>.  \<open>ptr_size\<close> is \<^verbatim>\<open>sizeof(char *)\<close>, the stride of the
  pointer arithmetic on \<^verbatim>\<open>&ret->payload\<close>, whose type is \<^verbatim>\<open>char **\<close>.
\<close>

definition word_size :: cint where
  "word_size = 4"

definition log2_word_size :: nat where
  "log2_word_size = 2"

definition header_size :: cint where
  "header_size = 24"

definition list_off :: int where
  "list_off = 8"

definition ptr_size :: int where
  "ptr_size = 8"

section \<open>The list primitives of \<^verbatim>\<open>list.h\<close>\<close>

text \<open>
  Modelled from the spec: \<^verbatim>\<open>struct list_head\<close> of \<^verbatim>\<open>list.h\<close> is not among the
  sources.  The free list is "doubly linked" with the fields \<open>next\<close> and \<open>previous\<close>; the
  diagram of \<^verbatim>\<open>mpool.h\<close> puts the next pointer first.  A list pointer is the address
  of the \<open>next\<close> field; \<open>prev\<close> follows it, one pointer further.
\<close>

definition next_of :: "memory \<Rightarrow> addr \<Rightarrow> addr" where
  "next_of m l = load_ptr m l"

definition prev_of :: "memory \<Rightarrow> addr \<Rightarrow> addr" where
  "prev_of m l = load_ptr m (ptr_add l ptr_size)"

definition set_next :: "memory \<Rightarrow> addr \<Rightarrow> addr \<Rightarrow> memory" where
  "set_next m l v = store_ptr m l v"

definition set_prev :: "memory \<Rightarrow> addr \<Rightarrow> addr \<Rightarrow> memory" where
  "set_prev m l v = store_ptr m (ptr_add l ptr_size) v"

text \<open>
  Modelled from the spec: \<^verbatim>\<open>container_of(ptr, block_t, member)\<close> of the absent
  \<^verbatim>\<open>list.h\<close> ("recover the Block Header immediately preceding pointer by fixed
  offset").  The members \<^verbatim>\<open>payload\<close> and \<^verbatim>\<open>list\<close> share the offset \<open>list_off\<close>.
\<close>

definition container_of :: "addr \<Rightarrow> addr" where
  "container_of p = ptr_add p (- list_off)"

text \<open>
  Modelled from the spec: \<^verbatim>\<open>list_add(node, head)\<close> of the absent \<^verbatim>\<open>list.h\<close>, the
  conventional insertion of \<open>node\<close> right after the sentinel of a circular list:
  \<^verbatim>\<open>next = head->next; next->prev = node; node->next = next; node->prev = head;
  head->next = node\<close>.
\<close>

definition list_add :: "addr \<Rightarrow> addr \<Rightarrow> memory \<Rightarrow> memory" where
  "list_add node head m =
     (let next = next_of m head;
          m1 = set_prev m next node;
          m2 = set_next m1 node next;
          m3 = set_prev m2 node head
      in set_next m3 head node)"

text \<open>
  Modelled from the spec: \<^verbatim>\<open>list_del(node)\<close> of the absent \<^verbatim>\<open>list.h\<close>:
  \<^verbatim>\<open>next = node->next; prev = node->prev; next->prev = prev; prev->next = next\<close>.
\<close>

definition list_del :: "addr \<Rightarrow> memory \<Rightarrow> memory" where
  "list_del node m =
     (let next = next_of m node;
          prev = prev_of m node;
          m1 = set_prev m next prev
      in set_next m1 prev next)"

text \<open>
  Modelled from the spec: \<^verbatim>\<open>list_is_singular(head)\<close> of the absent \<^verbatim>\<open>list.h\<close>
  ("the Free List is singular (one existing free block)"): the list is not empty and
  \<^verbatim>\<open>head->prev == head->next\<close>.
\<close>

definition list_is_singular :: "addr \<Rightarrow> memory \<Rightarrow> bool" where
  "list_is_singular head m \<longleftrightarrow> next_of m head \<noteq> head \<and> prev_of m head = next_of m head"

section \<open>Allocator state\<close>

text \<open>
  The statics of \<^verbatim>\<open>mpool.c\<close>.  \<open>block_head\<close> is the address of the list sentinel
  \<^verbatim>\<open>block_head\<close>, whose two pointers live in \<open>mem\<close> like everything else.
\<close>

record pool =
  mem :: memory
  block_head :: addr
  pool_size :: cint
  pool_free_space :: cint

text \<open>
  Modelled from the spec: \<^verbatim>\<open>LIST_HEAD(block_head)\<close> of the absent \<^verbatim>\<open>list.h\<close>
  defines the sentinel with both pointers on itself, the empty list.  This is the
  state at program start; the two counters are zero.
\<close>

definition start :: "addr \<Rightarrow> memory \<Rightarrow> pool" where
  "start h m =
     \<lparr>mem = set_prev (set_next m h h) h h, block_head = h,
      pool_size = 0, pool_free_space = 0\<rparr>"

section \<open>\<^verbatim>\<open>mpool.c\<close>\<close>

definition pool_init :: "addr \<Rightarrow> cint \<Rightarrow> pool \<Rightarrow> bool \<times> pool" where
  "pool_init addr sz s =
     (if addr = 0 then (False, s)
      else if sz \<le>s header_size then (False, s)
      else
        let s1 = s\<lparr>pool_size := sz - word_size\<rparr>;
            s2 = s1\<lparr>pool_free_space := sz - word_size\<rparr>;
            current = addr;
            m1 = store_int (mem s2) current (pool_free_space s2);
            m2 = list_add (ptr_add current list_off) (block_head s2) m1
        in (True, s2\<lparr>mem := m2\<rparr>))"

definition round_up :: "cint \<Rightarrow> cint" where
  "round_up x =
     (let offset = push_bit log2_word_size 1 - 1
      in push_bit log2_word_size (signed_drop_bit log2_word_size (x + offset)))"

text \<open>
  \<^verbatim>\<open>*to = *from\<close> copies both pointers; then the neighbours are redirected.
\<close>

definition list_replace :: "addr \<Rightarrow> addr \<Rightarrow> memory \<Rightarrow> memory" where
  "list_replace from to m =
     (let m1 = set_prev (set_next m to (next_of m from)) to (prev_of m from);
          m2 = set_prev m1 (next_of m1 to) to
      in set_next m2 (prev_of m2 to) to)"

text \<open>
  The loop of \<^verbatim>\<open>get_loc_to_place\<close>.  Modelled from the spec: the macro
  \<^verbatim>\<open>list_for_each_entry\<close> of the absent \<^verbatim>\<open>list.h\<close> ("scan the Free List in address
  order") starts at \<^verbatim>\<open>head->next\<close>, yields the entry \<open>container_of l\<close> of each list
  pointer \<open>l\<close>, and stops when \<open>l\<close> is the sentinel again.  On a list that does not lead
  back to the sentinel the loop does not return, which is the value \<open>None\<close>.
\<close>

partial_function (option) get_loc_to_place_loop ::
  "memory \<Rightarrow> addr \<Rightarrow> cint \<Rightarrow> addr \<Rightarrow> addr option" where
  "get_loc_to_place_loop m head sz l =
     (if l = head then Some 0
      else if sz + header_size \<le>s load_int m (container_of l)
      then Some (container_of l)
      else get_loc_to_place_loop m head sz (next_of m l))"

definition get_loc_to_place :: "cint \<Rightarrow> pool \<Rightarrow> addr option" where
  "get_loc_to_place sz s =
     get_loc_to_place_loop (mem s) (block_head s) sz (next_of (mem s) (block_head s))"

text \<open>
  \<^verbatim>\<open>pool_malloc\<close>; the null pointer is 0.  \<^verbatim>\<open>&ret->payload + _size\<close> is arithmetic
  on a \<^verbatim>\<open>char **\<close>: the byte offset is \<open>ptr_size * _size\<close>.
\<close>

definition pool_malloc :: "cint \<Rightarrow> pool \<Rightarrow> (addr \<times> pool) option" where
  "pool_malloc sz s =
     (if sz \<le>s 0 then Some (0, s)
      else
        let sz' = round_up sz in
        if pool_free_space s \<le>s sz' + header_size then Some (0, s)
        else
          (case get_loc_to_place sz s of
             None \<Rightarrow> None
           | Some ret \<Rightarrow>
               if ret = 0 then Some (0, s)
               else
                 let new_block = ptr_add (ptr_add ret list_off) (ptr_size * sint sz');
                     m1 = store_int (mem s) new_block (load_int (mem s) ret - word_size - sz');
                     m2 = store_int m1 ret sz';
                     m3 = list_replace (ptr_add ret list_off) (ptr_add new_block list_off) m2;
                     s1 = s\<lparr>mem := m3\<rparr>;
                     s2 = s1\<lparr>pool_free_space := pool_free_space s1 - sz'\<rparr>;
                     s3 = s2\<lparr>pool_free_space := pool_free_space s2 - word_size\<rparr>
                 in Some (ptr_add ret list_off, s3)))"

definition pool_calloc :: "cint \<Rightarrow> pool \<Rightarrow> (addr \<times> pool) option" where
  "pool_calloc sz s =
     (case pool_malloc sz s of
        None \<Rightarrow> None
      | Some (ptr, s1) \<Rightarrow>
          if ptr = 0 then Some (0, s1)
          else Some (ptr, s1\<lparr>mem := memset (mem s1) ptr 0 (size_t_of sz)\<rparr>))"

text \<open>
  The loop of \<^verbatim>\<open>get_loc_to_free\<close>; it returns \<^verbatim>\<open>&node->list\<close>, which is the
  sentinel when no entry lies above the target.
\<close>

partial_function (option) get_loc_to_free_loop ::
  "memory \<Rightarrow> addr \<Rightarrow> addr \<Rightarrow> addr \<Rightarrow> addr option" where
  "get_loc_to_free_loop m head target l =
     (if l = head then Some l
      else if target < container_of l then Some l
      else get_loc_to_free_loop m head target (next_of m l))"

definition get_loc_to_free :: "addr \<Rightarrow> pool \<Rightarrow> addr option" where
  "get_loc_to_free addr s =
     (if list_is_singular (block_head s) (mem s) then Some (prev_of (mem s) (block_head s))
      else
        let target = container_of addr
        in get_loc_to_free_loop (mem s) (block_head s) target (next_of (mem s) (block_head s)))"

definition list_insert_before :: "addr \<Rightarrow> addr \<Rightarrow> memory \<Rightarrow> memory" where
  "list_insert_before node after m =
     (let prev = prev_of m after;
          m1 = set_prev m node prev;
          m2 = set_next m1 node after;
          m3 = set_prev m2 after node
      in set_next m3 prev node)"

definition block_try_merge :: "addr \<Rightarrow> addr \<Rightarrow> pool \<Rightarrow> pool" where
  "block_try_merge node1 node2 s =
     (if node1 = block_head s \<or> node2 = block_head s then s
      else
        let n1 = container_of node1;
            n2 = container_of node2;
            loc = ptr_add (ptr_add n1 list_off) (ptr_size * sint (load_int (mem s) n1))
        in if loc = n2 then
             let m1 = list_del node2 (mem s);
                 m2 = store_int m1 n1 (load_int m1 n1 + (word_size + load_int m1 n2))
             in s\<lparr>mem := m2, pool_free_space := pool_free_space s + word_size\<rparr>
           else s)"

definition pool_free :: "addr \<Rightarrow> pool \<Rightarrow> pool option" where
  "pool_free addr s =
     (let target = container_of addr;
          s1 = s\<lparr>pool_free_space := pool_free_space s + load_int (mem s) target\<rparr>
      in (case get_loc_to_free addr s1 of
            None \<Rightarrow> None
          | Some target_after \<Rightarrow>
              let node = ptr_add target list_off;
                  s2 = s1\<lparr>mem := list_insert_before node target_after (mem s1)\<rparr>;
                  s3 = block_try_merge node (next_of (mem s2) node) s2;
                  s4 = block_try_merge (prev_of (mem s3) node) node s3
              in Some s4))"

definition pool_realloc :: "addr \<Rightarrow> cint \<Rightarrow> pool \<Rightarrow> (addr \<times> pool) option" where
  "pool_realloc addr sz s =
     (case pool_malloc sz s of
        None \<Rightarrow> None
      | Some (ptr, s1) \<Rightarrow>
          if ptr = 0 then Some (0, s1)
          else
            let s2 = s1\<lparr>mem := memcpy (mem s1) ptr addr (size_t_of sz)\<rparr>
            in (case pool_free addr s2 of
                  None \<Rightarrow> None
                | Some s3 \<Rightarrow> Some (ptr, s3)))"

section \<open>Reading the free list\<close>

text \<open>
  The blocks on the free list, in list order, as \<^verbatim>\<open>list_for_each_entry\<close> visits
  them; \<open>None\<close> when following \<open>next\<close> never comes back to the sentinel.
\<close>

partial_function (option) free_list_from :: "memory \<Rightarrow> addr \<Rightarrow> addr \<Rightarrow> addr list option" where
  "free_list_from m head l =
     (if l = head then Some []
      else Option.bind (free_list_from m head (next_of m l))
             (\<lambda>r. Some (container_of l # r)))"

definition free_list :: "pool \<Rightarrow> addr list option" where
  "free_list s = free_list_from (mem s) (block_head s) (next_of (mem s) (block_head s))"

definition block_size :: "pool \<Rightarrow> addr \<Rightarrow> cint" where
  "block_size s b = load_int (mem s) b"

definition bytes_at :: "pool \<Rightarrow> addr \<Rightarrow> nat \<Rightarrow> byte list" where
  "bytes_at s a n = load_bytes (mem s) a n"

text \<open>
  The bookkeeping of a state: the free list, the size fields of its blocks in list
  order, and the counter \<^verbatim>\<open>pool_free_space\<close>.
\<close>

definition observe :: "pool \<Rightarrow> addr list option \<times> cint list option \<times> cint" where
  "observe s = (free_list s, map_option (map (block_size s)) (free_list s), pool_free_space s)"

section \<open>Runs\<close>

text \<open>
  The arena of the runs below is the buffer at address 65536.  Unless said otherwise
  it has 512 bytes, as in \<^verbatim>\<open>main.c\<close>, the sentinel \<^verbatim>\<open>block_head\<close> is at 16448, and
  the memory is zero at program start.
\<close>

definition booted :: "cint \<Rightarrow> pool" where
  "booted capacity = snd (pool_init 65536 capacity (start 16448 (\<lambda>a. 0)))"

text \<open>
  A block of 4 bytes is resized to 24 bytes.  The buffer holds the low byte of each
  address before the allocator is set up, so that copied bytes can be told apart.
\<close>

definition resize_run :: "(addr \<times> addr \<times> pool \<times> pool) option" where
  "resize_run = do {
     let s0 = snd (pool_init 65536 512 (start 16448 (\<lambda>a. word_of_nat a)));
     (p, s1) \<leftarrow> pool_malloc 4 s0;
     (q, s2) \<leftarrow> pool_realloc p 24 s1;
     Some (p, q, s1, s2)
   }"

definition resize_view ::
  "addr \<times> addr \<times> pool \<times> pool \<Rightarrow> addr \<times> addr \<times> cint \<times> byte list \<times> byte list \<times> byte list" where
  "resize_view r =
     (case r of (p, q, s1, s2) \<Rightarrow>
        (p, q, block_size s1 (container_of p),
         bytes_at s1 (p + 16) 8, bytes_at s1 (q + 16) 8, bytes_at s2 (q + 16) 8))"

text \<open>The first allocation of \<^verbatim>\<open>main.c\<close>: 32 bytes from the fresh arena.\<close>

definition split_run :: "(addr \<times> pool) option" where
  "split_run = pool_malloc 32 (booted 512)"

definition split_view :: "addr \<times> pool \<Rightarrow> addr \<times> cint \<times> (addr list option \<times> cint list option \<times> cint)" where
  "split_view r = (case r of (p, s) \<Rightarrow> (p, block_size s (container_of p), observe s))"

text \<open>
  An arena of 47 bytes: two allocations of 4 bytes, the first one released, which
  leaves free blocks of 4 and 27 bytes and a counter of 31; then a request of 1 byte.
\<close>

definition first_fit_state :: "pool option" where
  "first_fit_state = do {
     (p1, s1) \<leftarrow> pool_malloc 4 (booted 47);
     (p2, s2) \<leftarrow> pool_malloc 4 s1;
     pool_free p1 s2
   }"

definition first_fit_run ::
  "((addr list option \<times> cint list option \<times> cint) \<times> cint \<times> addr \<times> cint) option" where
  "first_fit_run = do {
     s \<leftarrow> first_fit_state;
     (p, s') \<leftarrow> pool_malloc 1 s;
     Some (observe s, round_up 1 + header_size, p, block_size s' (container_of p))
   }"

text \<open>A second \<^verbatim>\<open>pool_init\<close>, on another buffer, while the first arena is in use.\<close>

definition reinit_run :: "bool \<times> pool" where
  "reinit_run = pool_init 69632 100 (booted 100)"

text \<open>
  Six allocations (4, 4, 4, 4, 8 and 4 bytes), then the first four released from the
  highest to the lowest, then the sixth; \<open>p5\<close> is still allocated.
\<close>

definition merged_state :: "(addr \<times> pool) option" where
  "merged_state = do {
     (p1, s1) \<leftarrow> pool_malloc 4 (booted 512);
     (p2, s2) \<leftarrow> pool_malloc 4 s1;
     (p3, s3) \<leftarrow> pool_malloc 4 s2;
     (p4, s4) \<leftarrow> pool_malloc 4 s3;
     (p5, s5) \<leftarrow> pool_malloc 8 s4;
     (p6, s6) \<leftarrow> pool_malloc 4 s5;
     s7 \<leftarrow> pool_free p4 s6;
     s8 \<leftarrow> pool_free p3 s7;
     s9 \<leftarrow> pool_free p2 s8;
     s10 \<leftarrow> pool_free p1 s9;
     s11 \<leftarrow> pool_free p6 s10;
     Some (p5, s11)
   }"

text \<open>Then \<open>p5\<close> is released.\<close>

definition order_run :: "pool option" where
  "order_run = do {
     (p5, s) \<leftarrow> merged_state;
     pool_free p5 s
   }"

text \<open>Or 20 bytes are allocated first, and then \<open>p5\<close> is released.\<close>

definition counter_run :: "pool option" where
  "counter_run = do {
     (p5, s) \<leftarrow> merged_state;
     (p7, s') \<leftarrow> pool_malloc 20 s;
     pool_free p5 s'
   }"

text \<open>Three allocations of 4 bytes, released in the order of their allocation.\<close>

definition roundtrip_run :: "pool option" where
  "roundtrip_run = do {
     (p1, s1) \<leftarrow> pool_malloc 4 (booted 512);
     (p2, s2) \<leftarrow> pool_malloc 4 s1;
     (p3, s3) \<leftarrow> pool_malloc 4 s2;
     s4 \<leftarrow> pool_free p1 s3;
     s5 \<leftarrow> pool_free p2 s4;
     pool_free p3 s5
   }"

section \<open>Reading and writing memory\<close>

text \<open>
  A value that was stored is read back; a store does not change what is read outside
  the bytes it writes.
\<close>

lemma length_le_bytes: "length (le_bytes k n) = k"
  by (induction k arbitrary: n) auto

lemma le_val_le_bytes: "le_val (le_bytes k n) = n mod 256 ^ k"
proof (induction k arbitrary: n)
  case 0
  then show ?case by simp
next
  case (Suc k)
  have "unat (word_of_nat n :: byte) = n mod 256"
    by (simp add: unat_of_nat)
  then show ?case
    using Suc [of "n div 256"] by (simp add: mod_mult2_eq)
qed

lemma take_le_bytes: "take j (le_bytes k n) = le_bytes (min j k) n"
proof (induction k arbitrary: n j)
  case 0
  then show ?case by simp
next
  case (Suc k)
  then show ?case by (cases j) auto
qed

lemma store_bytes_out: "b < a \<or> a + length bs \<le> b \<Longrightarrow> store_bytes m a bs b = m b"
  by (induction bs arbitrary: m a) auto

lemma load_bytes_eq: "(\<And>i. i < k \<Longrightarrow> m (a + i) = m' (a + i)) \<Longrightarrow> load_bytes m a k = load_bytes m' a k"
proof (induction k arbitrary: a)
  case 0
  then show ?case by simp
next
  case (Suc k)
  have "m a = m' a" using Suc.prems [of 0] by simp
  moreover have "load_bytes m (Suc a) k = load_bytes m' (Suc a) k"
    by (rule Suc.IH) (use Suc.prems [of "Suc _"] in simp)
  ultimately show ?case by simp
qed

lemma load_bytes_store_disj:
  "b + k \<le> a \<or> a + length bs \<le> b \<Longrightarrow> load_bytes (store_bytes m a bs) b k = load_bytes m b k"
  by (rule load_bytes_eq) (auto intro!: store_bytes_out)

lemma load_bytes_store_prefix:
  "k \<le> length bs \<Longrightarrow> load_bytes (store_bytes m a bs) a k = take k bs"
proof (induction bs arbitrary: m a k)
  case Nil
  then show ?case by simp
next
  case (Cons b bs)
  show ?case
  proof (cases k)
    case 0
    then show ?thesis by simp
  next
    case (Suc j)
    with Cons.prems have j: "j \<le> length bs" by simp
    have "store_bytes (m(a := b)) (Suc a) bs a = b"
      by (simp add: store_bytes_out)
    with Suc Cons.IH [OF j] show ?thesis by simp
  qed
qed

lemma load_int_store_int_same [simp]: "load_int (store_int m a v) a = v"
proof -
  have "load_bytes (store_bytes m a (le_bytes 4 (unat v))) a 4 = le_bytes 4 (unat v)"
    using load_bytes_store_prefix [of 4 "le_bytes 4 (unat v)" m a]
    by (simp add: length_le_bytes take_le_bytes)
  moreover have "unat v mod 256 ^ 4 = unat v"
    using unsigned_less [of v, where 'a=nat] by simp
  ultimately show ?thesis
    by (simp add: load_int_def store_int_def le_val_le_bytes del: le_bytes.simps)
qed

lemma load_int_store_int_disj:
  "b + 4 \<le> a \<or> a + 4 \<le> b \<Longrightarrow> load_int (store_int m a v) b = load_int m b"
  by (simp add: load_int_def store_int_def load_bytes_store_disj length_le_bytes del: le_bytes.simps load_bytes.simps)

lemma load_int_store_ptr_disj:
  "b + 4 \<le> a \<or> a + 8 \<le> b \<Longrightarrow> load_int (store_ptr m a v) b = load_int m b"
  by (simp add: load_int_def store_ptr_def load_bytes_store_disj length_le_bytes del: le_bytes.simps load_bytes.simps)

lemma load_ptr_store_int_disj:
  "b + 8 \<le> a \<or> a + 4 \<le> b \<Longrightarrow> load_ptr (store_int m a v) b = load_ptr m b"
  by (simp add: load_ptr_def store_int_def load_bytes_store_disj length_le_bytes del: le_bytes.simps load_bytes.simps)

lemma load_ptr_store_ptr_disj:
  "b + 8 \<le> a \<or> a + 8 \<le> b \<Longrightarrow> load_ptr (store_ptr m a v) b = load_ptr m b"
  by (simp add: load_ptr_def store_ptr_def load_bytes_store_disj length_le_bytes del: le_bytes.simps load_bytes.simps)

lemma load_ptr_store_ptr_same:
  "v < 18446744073709551616 \<Longrightarrow> load_ptr (store_ptr m a v) a = v"
proof -
  assume v: "v < 18446744073709551616"
  have "load_bytes (store_bytes m a (le_bytes 8 v)) a 8 = le_bytes 8 v"
    using load_bytes_store_prefix [of 8 "le_bytes 8 v" m a]
    by (simp add: length_le_bytes take_le_bytes)
  then show ?thesis using v
    by (simp add: load_ptr_def store_ptr_def le_val_le_bytes del: le_bytes.simps)
qed

lemma load_int_store_ptr_low: "load_int (store_ptr m a v) a = word_of_nat v"
proof -
  have "load_bytes (store_bytes m a (le_bytes 8 v)) a 4 = le_bytes 4 v"
    using load_bytes_store_prefix [of 4 "le_bytes 8 v" m a]
    by (simp add: length_le_bytes take_le_bytes del: le_bytes.simps)
  moreover have "(word_of_nat (v mod 256 ^ 4) :: cint) = word_of_nat v"
    by (simp add: word_of_nat_eq_iff take_bit_eq_mod)
  ultimately show ?thesis
    by (simp add: load_int_def store_ptr_def le_val_le_bytes del: le_bytes.simps)
qed

lemma load_bytes_zero: "le_val (load_bytes (\<lambda>a. 0) a k) = 0"
  by (induction k arbitrary: a) auto

lemma load_ptr_zero: "load_ptr (\<lambda>a. 0) a = 0"
  by (simp add: load_ptr_def load_bytes_zero del: load_bytes.simps)

lemma load_int_zero: "load_int (\<lambda>a. 0) a = 0"
  by (simp add: load_int_def load_bytes_zero del: load_bytes.simps)

text \<open>The facts by which a run is evaluated.\<close>

lemmas mem_reads = load_int_store_int_disj load_int_store_ptr_disj load_ptr_store_int_disj
  load_ptr_store_ptr_disj load_ptr_store_ptr_same load_int_store_ptr_low load_ptr_zero load_int_zero

lemmas run_defs = word_size_def log2_word_size_def header_size_def list_off_def ptr_size_def ptr_add_def size_t_of_def
  container_of_def
  next_of_def prev_of_def set_next_def set_prev_def list_add_def list_del_def list_is_singular_def
  start_def pool_init_def round_up_def list_replace_def get_loc_to_place_loop.simps get_loc_to_place_def
  pool_malloc_def pool_calloc_def get_loc_to_free_loop.simps get_loc_to_free_def list_insert_before_def
  block_try_merge_def pool_free_def pool_realloc_def free_list_from.simps free_list_def block_size_def Let_def
  word_sle_eq word_sless_eq bytes_at_def observe_def booted_def

text \<open>
  The body of a \<open>let\<close>, of a bind and of a case on a pair is evaluated once its
  argument is known.
\<close>

lemma bind_weak_cong: "x = y \<Longrightarrow> Option.bind x f = Option.bind y f"
  by simp

lemmas lazy_congs = let_weak_cong bind_weak_cong prod.case_cong_weak

text \<open>Single bytes, and the bytes that \<open>memcpy\<close> and \<open>memset\<close> leave alone.\<close>

lemma store_int_out: "b < a \<or> a + 4 \<le> b \<Longrightarrow> store_int m a v b = m b"
  by (simp add: store_int_def store_bytes_out length_le_bytes del: le_bytes.simps)

lemma store_ptr_out: "b < a \<or> a + 8 \<le> b \<Longrightarrow> store_ptr m a v b = m b"
  by (simp add: store_ptr_def store_bytes_out length_le_bytes del: le_bytes.simps)

lemma memcpy_apply: "memcpy m dst src n b = (if dst \<le> b \<and> b < dst + n then m (src + (b - dst)) else m b)"
  by (simp add: memcpy_def)

lemma memset_apply: "memset m p c n b = (if p \<le> b \<and> b < p + n then c else m b)"
  by (simp add: memset_def)

lemma load_bytes_numeral:
  "load_bytes m a (numeral k) = m a # load_bytes m (Suc a) (pred_numeral k)"
  by (simp add: numeral_eq_Suc)

lemma load_bytes_memcpy_out:
  "b + k \<le> dst \<or> dst + n \<le> b \<Longrightarrow> load_bytes (memcpy m dst src n) b k = load_bytes m b k"
  by (rule load_bytes_eq) (auto simp: memcpy_def)

lemma load_bytes_memset_out:
  "b + k \<le> p \<or> p + n \<le> b \<Longrightarrow> load_bytes (memset m p c n) b k = load_bytes m b k"
  by (rule load_bytes_eq) (auto simp: memset_def)

lemma load_ptr_memcpy_out:
  "b + 8 \<le> dst \<or> dst + n \<le> b \<Longrightarrow> load_ptr (memcpy m dst src n) b = load_ptr m b"
  by (simp add: load_ptr_def load_bytes_memcpy_out del: load_bytes.simps)

lemma load_int_memcpy_out:
  "b + 4 \<le> dst \<or> dst + n \<le> b \<Longrightarrow> load_int (memcpy m dst src n) b = load_int m b"
  by (simp add: load_int_def load_bytes_memcpy_out del: load_bytes.simps)

lemma load_ptr_memset_out:
  "b + 8 \<le> p \<or> p + n \<le> b \<Longrightarrow> load_ptr (memset m p c n) b = load_ptr m b"
  by (simp add: load_ptr_def load_bytes_memset_out del: load_bytes.simps)

lemma load_int_memset_out:
  "b + 4 \<le> p \<or> p + n \<le> b \<Longrightarrow> load_int (memset m p c n) b = load_int m b"
  by (simp add: load_int_def load_bytes_memset_out del: load_bytes.simps)

lemmas byte_reads = store_int_out store_ptr_out memcpy_apply memset_apply load_ptr_memcpy_out load_int_memcpy_out
  load_ptr_memset_out load_int_memset_out

section \<open>Pointers\<close>

text \<open>
  A block that \<^verbatim>\<open>get_loc_to_place\<close> finds has an address below \<open>2 ^ 64\<close>, and its
  payload pointer is not null unless that address is \<open>2 ^ 64 - 8\<close>.  So
  \<^verbatim>\<open>pool_malloc\<close> returns the null pointer only where it leaves the state alone.
\<close>

lemma ptr_add_less: "ptr_add p i < 18446744073709551616"
proof -
  have "(int p + i) mod 18446744073709551616 < 18446744073709551616"
    by (rule pos_mod_bound) simp
  moreover have "0 \<le> (int p + i) mod 18446744073709551616"
    by (rule pos_mod_sign) simp
  ultimately show ?thesis
    unfolding ptr_add_def by linarith
qed

lemma get_loc_to_place_loop_less:
  "get_loc_to_place_loop m h sz l = Some r \<Longrightarrow> r < 18446744073709551616"
  by (erule get_loc_to_place_loop.raw_induct [where P = "\<lambda>_ _ _ _ r. r < 18446744073709551616", rotated])
    (auto simp: ptr_add_less container_of_def split: if_splits)

lemma payload_not_null:
  assumes "r < 18446744073709551616" and "r \<noteq> 18446744073709551608"
  shows "ptr_add r list_off \<noteq> 0"
proof (cases "r < 18446744073709551608")
  case True
  then have "ptr_add r list_off = r + 8"
    by (simp add: ptr_add_def list_off_def)
  then show ?thesis by simp
next
  case False
  with assms have "18446744073709551608 < r" by simp
  with assms have "(int r + 8) mod 18446744073709551616 = int r + 8 - 18446744073709551616"
    by (simp add: mod_pos_geq)
  with \<open>18446744073709551608 < r\<close> show ?thesis
    by (simp add: ptr_add_def list_off_def)
qed

lemma pool_malloc_null_unchanged:
  assumes "pool_malloc sz s = Some (0, s')"
    and "get_loc_to_place sz s \<noteq> Some 18446744073709551608"
  shows "s' = s"
proof (cases "sz \<le>s 0 \<or> pool_free_space s \<le>s round_up sz + header_size")
  case True
  then have "pool_malloc sz s = Some (0, s)"
    unfolding pool_malloc_def Let_def by auto
  with assms(1) show ?thesis
    by simp
next
  case False
  show ?thesis
  proof (cases "get_loc_to_place sz s")
    case None
    with False assms(1) show ?thesis
      by (simp add: pool_malloc_def Let_def)
  next
    case (Some ret)
    show ?thesis
    proof (cases "ret = 0")
      case True
      with False Some assms(1) show ?thesis
        by (simp add: pool_malloc_def Let_def)
    next
      case False
      have "ret < 18446744073709551616"
        using Some by (auto simp: get_loc_to_place_def dest: get_loc_to_place_loop_less)
      moreover have "ret \<noteq> 18446744073709551608"
        using Some assms(2) by simp
      ultimately have "ptr_add ret list_off \<noteq> 0"
        by (rule payload_not_null)
      with False Some \<open>\<not> (sz \<le>s 0 \<or> pool_free_space s \<le>s round_up sz + header_size)\<close> assms(1)
      show ?thesis
        by (simp add: pool_malloc_def Let_def)
    qed
  qed
qed

section \<open>Initialisation\<close>

text \<open>
  C9.  \<^verbatim>\<open>pool_init\<close> with a null address, or with a capacity that does not exceed
  \<open>header_size\<close>, returns false and leaves the whole state as it was: the two counters,
  the memory and with it the free list.
\<close>

theorem pool_init_rejects:
  "addr = 0 \<or> sz \<le>s header_size \<Longrightarrow> pool_init addr sz s = (False, s)"
  by (auto simp: pool_init_def)

text \<open>The two rejections, at a null address and at a capacity of exactly one header.\<close>

theorem pool_init_rejects_witness:
  "pool_init 0 512 (start 16448 (\<lambda>a. 0)) = (False, start 16448 (\<lambda>a. 0)) \<and>
   pool_init 65536 24 (start 16448 (\<lambda>a. 0)) = (False, start 16448 (\<lambda>a. 0))"
proof -
  have null: "(0 :: addr) = 0 \<or> (512 :: cint) \<le>s header_size"
    by simp
  have small: "(65536 :: addr) = 0 \<or> (24 :: cint) \<le>s header_size"
    by (simp add: header_size_def)
  show ?thesis
    by (rule conjI) (rule pool_init_rejects [OF null], rule pool_init_rejects [OF small])
qed

text \<open>
  C4.  A second \<^verbatim>\<open>pool_init\<close>, on another buffer of 100 bytes, made while the block
  of the first arena is on the free list.  The call returns true, overwrites
  \<^verbatim>\<open>pool_size\<close> and \<^verbatim>\<open>pool_free_space\<close> with 96 and writes the size 96 at the new
  address, but \<^verbatim>\<open>list_add\<close> pushes the new block in front of the old one and
  \<^verbatim>\<open>block_head\<close> is never reset: the free list has the two nodes 69632 and 65536,
  with sizes 96 and 96 against a counter of 96.  The new block is not the sole node.
\<close>

theorem reinit_keeps_old_nodes:
  "fst reinit_run \<and> pool_size (snd reinit_run) = 96 \<and>
   observe (snd reinit_run) = (Some [69632, 65536], Some [96, 96], 96)"
  by (simp add: reinit_run_def run_defs mem_reads cong: lazy_congs)

section \<open>Allocation\<close>

text \<open>
  C2.  The first allocation of \<^verbatim>\<open>main.c\<close>, 32 bytes out of the fresh block of 508:
  the pointer returned is 65544, the found block's size field is 32, the remainder has
  size \<open>508 - 4 - 32 = 472\<close> and the counter drops by 36 to 472.  The remainder
  begins at 65800, that is 256 bytes (\<open>ptr_size * 32\<close>) past the payload start, and not
  at byte offset 32 (65576) as the claim has it.
\<close>

theorem split_places_remainder_scaled:
  "map_option split_view split_run = Some (65544, 32, Some [65800], Some [472], 472)"
  by (simp add: split_run_def split_view_def run_defs mem_reads cong: lazy_congs)

text \<open>
  C3.  The free list holds blocks of 4 and 27 bytes and the counter is 31.  A request
  of 1 byte is rounded up to 4, and 31 passes the admission check against
  \<open>4 + header_size = 28\<close>.  No free block has 28 bytes, so by the claim the allocation
  returns null; \<^verbatim>\<open>get_loc_to_place\<close> is called with the request as it came in and
  compares with \<open>1 + header_size = 25\<close>: the block of 27 bytes at 65616 is chosen and
  65624 is returned.
\<close>

theorem first_fit_uses_raw_size:
  "first_fit_run = Some ((Some [65536, 65616], Some [4, 27], 31), 28, 65624, 4)"
  by (simp add: first_fit_run_def first_fit_state_def run_defs mem_reads cong: lazy_congs)

section \<open>Resize\<close>

text \<open>
  C8.  When the allocation inside \<^verbatim>\<open>pool_realloc\<close> returns the null pointer,
  \<^verbatim>\<open>pool_realloc\<close> returns the null pointer and the state is the one before the
  call: the memory, hence the block at the pointer with its size field and payload and
  the free list, and the counters.  The second premise excludes a free block whose
  payload address \<open>ret + list_off\<close> would wrap around to the null pointer.
\<close>

theorem pool_realloc_failure:
  assumes "pool_malloc sz s = Some (0, s')"
    and "get_loc_to_place sz s \<noteq> Some 18446744073709551608"
  shows "pool_realloc addr sz s = Some (0, s) \<and> s' = s"
proof -
  have "s' = s"
    using assms by (rule pool_malloc_null_unchanged)
  with assms(1) show ?thesis
    by (simp add: pool_realloc_def)
qed

text \<open>A request of 1000 bytes in an arena of 64 bytes.\<close>

theorem pool_realloc_failure_witness:
  "pool_malloc 1000 (booted 64) = Some (0, booted 64) \<and>
   pool_realloc 65544 1000 (booted 64) = Some (0, booted 64)"
proof -
  have fails: "pool_malloc 1000 (booted 64) = Some (0, booted 64)"
    by (simp add: run_defs mem_reads cong: lazy_congs)
  have inside: "get_loc_to_place 1000 (booted 64) \<noteq> Some 18446744073709551608"
    by (simp add: run_defs mem_reads cong: lazy_congs)
  from pool_realloc_failure [OF fails inside, of 65544] fails show ?thesis
    by blast
qed

text \<open>
  C1.  A block allocated with 4 bytes is resized to 24 bytes.  The size field of the
  old block is 4, so at most 4 bytes are to be copied.  Bytes 16 to 23 behind the new
  pointer held 64 to 71 before the call; after it they hold 24 to 31, the bytes 16 to
  23 behind the old pointer: \<^verbatim>\<open>memcpy\<close> has copied 24 bytes.
\<close>

theorem resize_copies_past_old_block:
  "map_option resize_view resize_run =
     Some (65544, 65584, 4, [24, 25, 26, 27, 28, 29, 30, 31],
           [64, 65, 66, 67, 68, 69, 70, 71], [24, 25, 26, 27, 28, 29, 30, 31])"
  by (simp add: resize_run_def resize_view_def load_bytes_numeral run_defs mem_reads byte_reads cong: lazy_congs)

section \<open>Release\<close>

text \<open>
  C6.  Three allocations of 4 bytes in an arena of capacity 512, released in the order
  of their allocation.  The first two blocks merge into one of size 12, the third
  merges with the block behind it into one of size 492; \<^verbatim>\<open>block_try_merge\<close> then
  looks for the second one \<open>8 + ptr_size * 12\<close> bytes above the first, where it is not.
  Two free blocks remain, not one of size 508.
\<close>

theorem roundtrip_leaves_two_blocks:
  "map_option observe roundtrip_run = Some (Some [65536, 65616], Some [12, 492], 504)"
  by (simp add: roundtrip_run_def run_defs mem_reads cong: lazy_congs)

text \<open>
  C5.  Six allocations and five releases merge the whole arena into one free block at
  65536 although the block at 65696 is still allocated; its release finds a list of
  one node and splices the block in before that node.  The free list is then 65696,
  65536: not in increasing address order.
\<close>

theorem release_breaks_address_order:
  "map_option observe order_run = Some (Some [65696, 65536], Some [8, 496], 504)"
  by (simp add: order_run_def merged_state_def run_defs mem_reads cong: lazy_congs)

text \<open>
  C7.  From the same state, an allocation of 20 bytes puts the header of the remainder
  on the payload of the allocated block at 65696, and the release of that block writes
  its list links over the size field of the remainder.  The counter is 480, the sizes
  of the blocks on the free list are 8 and 65712.
\<close>

theorem counter_differs_from_sizes:
  "map_option observe counter_run = Some (Some [65696, 65704], Some [8, 65712], 480)"
  by (simp add: counter_run_def merged_state_def run_defs mem_reads cong: lazy_congs)

end
